theory Spec2Isabelle
  imports Main
begin

section \<open>The PostgreSQL dialect of ngorm\<close>

text \<open>
  A shallow embedding of \<^verbatim>\<open>dialect.go\<close>: the column type inference
  \<^verbatim>\<open>DataTypeOf\<close>, the catalog probes \<^verbatim>\<open>HasIndex\<close>, \<^verbatim>\<open>HasForeignKey\<close>,
  \<^verbatim>\<open>HasTable\<close>, \<^verbatim>\<open>HasColumn\<close>, \<^verbatim>\<open>CurrentDatabase\<close>, and the
  \<^verbatim>\<open>Hstore\<close> codec \<^verbatim>\<open>Value\<close>/\<^verbatim>\<open>Scan\<close>.

  Go strings are byte sequences and are modelled as \<^typ>\<open>string\<close>, one \<^typ>\<open>char\<close> per
  byte. What the code takes from other packages (the field parser of the model package,
  the \<^verbatim>\<open>hstore\<close> codec of the driver, the database handle) is a parameter of the
  functions below.
\<close>

subsection \<open>Functions of the Go standard library that the dialect calls\<close>

text \<open>
  The UTF-8 encodings of the runes for which \<^verbatim>\<open>unicode.IsSpace\<close> holds: the six ASCII
  ones, U+0085, U+00A0, U+1680, U+2000 to U+200A, U+2028, U+2029, U+202F, U+205F, U+3000.
\<close>

definition spaceRunes :: "string list" where
  "spaceRunes =
    [[CHR 0x09], [CHR 0x0A], [CHR 0x0B], [CHR 0x0C], [CHR 0x0D], [CHR 0x20],
     [CHR 0xC2, CHR 0x85], [CHR 0xC2, CHR 0xA0],
     [CHR 0xE1, CHR 0x9A, CHR 0x80],
     [CHR 0xE2, CHR 0x80, CHR 0x80], [CHR 0xE2, CHR 0x80, CHR 0x81],
     [CHR 0xE2, CHR 0x80, CHR 0x82], [CHR 0xE2, CHR 0x80, CHR 0x83],
     [CHR 0xE2, CHR 0x80, CHR 0x84], [CHR 0xE2, CHR 0x80, CHR 0x85],
     [CHR 0xE2, CHR 0x80, CHR 0x86], [CHR 0xE2, CHR 0x80, CHR 0x87],
     [CHR 0xE2, CHR 0x80, CHR 0x88], [CHR 0xE2, CHR 0x80, CHR 0x89],
     [CHR 0xE2, CHR 0x80, CHR 0x8A],
     [CHR 0xE2, CHR 0x80, CHR 0xA8], [CHR 0xE2, CHR 0x80, CHR 0xA9],
     [CHR 0xE2, CHR 0x80, CHR 0xAF],
     [CHR 0xE2, CHR 0x81, CHR 0x9F],
     [CHR 0xE3, CHR 0x80, CHR 0x80]]"

text \<open>
  \<open>trimRunes rs s\<close> removes from the front of \<open>s\<close> every leading occurrence of a byte
  sequence of \<open>rs\<close>. A byte that starts no white-space rune (an invalid byte too, which Go
  decodes as U+FFFD) stops it.
\<close>

function trimRunes :: "string list \<Rightarrow> string \<Rightarrow> string" where
  "trimRunes rs s =
     (case find (\<lambda>r. r \<noteq> [] \<and> take (length r) s = r) rs of
        None \<Rightarrow> s
      | Some r \<Rightarrow> trimRunes rs (drop (length r) s))"
  by pat_completeness auto
termination
proof (relation "measure (\<lambda>(rs, s). length s)")
  show "wf (measure (\<lambda>(rs, s). length s))" by simp
next
  fix rs :: "string list" and s r :: string
  assume "find (\<lambda>r. r \<noteq> [] \<and> take (length r) s = r) rs = Some r"
  then have nonempty: "r \<noteq> []" and front: "take (length r) s = r"
    by (auto simp: find_Some_iff)
  have "length (take (length r) s) \<le> length s"
    by simp
  with front have "length r \<le> length s"
    by simp
  moreover from nonempty have "0 < length r"
    by simp
  ultimately have "length s - length r < length s"
    by arith
  then show "((rs, drop (length r) s), (rs, s)) \<in> measure (\<lambda>(rs, s). length s)"
    by simp
qed

text \<open>\<^verbatim>\<open>strings.TrimSpace\<close>: leading, then trailing white space is removed.\<close>

definition TrimSpace :: "string \<Rightarrow> string" where
  "TrimSpace s = rev (trimRunes (map rev spaceRunes) (rev (trimRunes spaceRunes s)))"

text \<open>
  \<^verbatim>\<open>strings.ToLower\<close>, as far as a comparison with an ASCII word can tell: the letters
  \<open>A\<close> to \<open>Z\<close> become \<open>a\<close> to \<open>z\<close>, and U+0130 (bytes C4 B0), the one rune outside ASCII
  whose lower case is one of the letters compared with below, becomes \<open>i\<close>. The bytes of
  every other rune outside ASCII are kept: its lower case is outside ASCII as well.
\<close>

definition lowerByte :: "char \<Rightarrow> char" where
  "lowerByte c =
     (let n = (of_char c :: nat) in if 65 \<le> n \<and> n \<le> 90 then char_of (n + 32) else c)"

fun ToLower :: "string \<Rightarrow> string" where
  "ToLower [] = []"
| "ToLower [c] = [lowerByte c]"
| "ToLower (c # d # cs) =
     (if c = CHR 0xC4 \<and> d = CHR 0xB0 then CHR ''i'' # ToLower cs
      else lowerByte c # ToLower (d # cs))"

text \<open>The verb \<^verbatim>\<open>%d\<close> of \<^verbatim>\<open>fmt.Sprintf\<close> on an \<^verbatim>\<open>int\<close>.\<close>

fun natDigits :: "nat \<Rightarrow> string" where
  "natDigits n =
     (if n < 10 then [char_of (48 + n)]
      else natDigits (n div 10) @ [char_of (48 + n mod 10)])"

definition formatInt :: "int \<Rightarrow> string" where
  "formatInt i = (if i < 0 then CHR ''-'' # natDigits (nat (- i)) else natDigits (nat i))"

subsection \<open>Reflection\<close>

text \<open>
  \<^verbatim>\<open>reflect.Kind\<close>, for the kinds a type can have. The parser builds the value it returns
  from the type of the field, so the value is never the zero \<^verbatim>\<open>reflect.Value\<close> (whose
  kind would be \<^verbatim>\<open>Invalid\<close>).
\<close>

datatype Kind =
    reflectBool
  | reflectInt | reflectInt8 | reflectInt16 | reflectInt32 | reflectInt64
  | reflectUint | reflectUint8 | reflectUint16 | reflectUint32 | reflectUint64 | reflectUintptr
  | reflectFloat32 | reflectFloat64 | reflectComplex64 | reflectComplex128
  | reflectArray | reflectChan | reflectFunc | reflectInterface | reflectMap
  | reflectPointer | reflectSlice | reflectString | reflectStruct
  | reflectUnsafePointer

text \<open>\<^verbatim>\<open>Kind.String()\<close>.\<close>

fun KindString :: "Kind \<Rightarrow> string" where
  "KindString reflectBool = ''bool''"
| "KindString reflectInt = ''int''"
| "KindString reflectInt8 = ''int8''"
| "KindString reflectInt16 = ''int16''"
| "KindString reflectInt32 = ''int32''"
| "KindString reflectInt64 = ''int64''"
| "KindString reflectUint = ''uint''"
| "KindString reflectUint8 = ''uint8''"
| "KindString reflectUint16 = ''uint16''"
| "KindString reflectUint32 = ''uint32''"
| "KindString reflectUint64 = ''uint64''"
| "KindString reflectUintptr = ''uintptr''"
| "KindString reflectFloat32 = ''float32''"
| "KindString reflectFloat64 = ''float64''"
| "KindString reflectComplex64 = ''complex64''"
| "KindString reflectComplex128 = ''complex128''"
| "KindString reflectArray = ''array''"
| "KindString reflectChan = ''chan''"
| "KindString reflectFunc = ''func''"
| "KindString reflectInterface = ''interface''"
| "KindString reflectMap = ''map''"
| "KindString reflectPointer = ''ptr''"
| "KindString reflectSlice = ''slice''"
| "KindString reflectString = ''string''"
| "KindString reflectStruct = ''struct''"
| "KindString reflectUnsafePointer = ''unsafe.Pointer''"

text \<open>
  The size in bits of a value of an integer kind (\<^verbatim>\<open>reflect.Type.Bits()\<close>), \<open>None\<close> for
  the kinds that are no integers. \<^verbatim>\<open>Int\<close>, \<^verbatim>\<open>Uint\<close> and \<^verbatim>\<open>Uintptr\<close> have the
  size of the platform's word, \<open>intSize\<close> (\<^verbatim>\<open>strconv.IntSize\<close>, 32 or 64); the other
  integer kinds have the size in their name. \<^verbatim>\<open>DataTypeOf\<close> does not read it; it is
  here to say how wide the kinds of its two integer cases are.
\<close>

fun intKindBits :: "nat \<Rightarrow> Kind \<Rightarrow> nat option" where
  "intKindBits intSize reflectInt = Some intSize"
| "intKindBits intSize reflectInt8 = Some 8"
| "intKindBits intSize reflectInt16 = Some 16"
| "intKindBits intSize reflectInt32 = Some 32"
| "intKindBits intSize reflectInt64 = Some 64"
| "intKindBits intSize reflectUint = Some intSize"
| "intKindBits intSize reflectUint8 = Some 8"
| "intKindBits intSize reflectUint16 = Some 16"
| "intKindBits intSize reflectUint32 = Some 32"
| "intKindBits intSize reflectUint64 = Some 64"
| "intKindBits intSize reflectUintptr = Some intSize"
| "intKindBits intSize _ = None"

text \<open>
  What \<^verbatim>\<open>DataTypeOf\<close> reads of a \<^verbatim>\<open>reflect.Value\<close>:
  \<^item> \<open>kind\<close>: \<^verbatim>\<open>value.Kind()\<close>;
  \<^item> \<open>typeName\<close>: \<^verbatim>\<open>value.Type().Name()\<close>;
  \<^item> \<open>elemIsUint8\<close>: whether \<^verbatim>\<open>value.Type().Elem() == reflect.TypeOf(uint8(0))\<close>
    (read for arrays and slices only);
  \<^item> \<open>typeLen\<close>: \<^verbatim>\<open>value.Type().Len()\<close> (read for arrays only);
  \<^item> \<open>isTime\<close>: whether \<^verbatim>\<open>value.Interface().(time.Time)\<close> succeeds.
\<close>

record reflectValue =
  kind :: Kind
  typeName :: string
  elemIsUint8 :: bool
  typeLen :: nat
  isTime :: bool

definition isByteArrayOrSlice :: "reflectValue \<Rightarrow> bool" where
  "isByteArrayOrSlice v = ((kind v = reflectArray \<or> kind v = reflectSlice) \<and> elemIsUint8 v)"

definition isUUID :: "reflectValue \<Rightarrow> bool" where
  "isUUID v =
     (if kind v \<noteq> reflectArray \<or> typeLen v \<noteq> 16 then False
      else let typename = typeName v; lower = ToLower typename
           in ''uuid'' = lower \<or> ''guid'' = lower)"

subsection \<open>Type inference\<close>

text \<open>
  \<^verbatim>\<open>model.StructField\<close>. \<^verbatim>\<open>DataTypeOf\<close> reads \<^verbatim>\<open>IsPrimaryKey\<close>, reads and
  writes \<^verbatim>\<open>TagSettings\<close>, and hands the whole field to the parser; \<open>Struct\<close> stands for
  everything else the field holds. \<^verbatim>\<open>TagSettings\<close> is an allocated map, as the model
  package builds it.
\<close>

record 's StructField =
  Struct :: 's
  IsPrimaryKey :: bool
  TagSettings :: "string \<rightharpoonup> string"

text \<open>
  The four results of \<^verbatim>\<open>model.ParseFieldStructForDialect\<close>, a function of the model
  package and a parameter here. (\<open>sizeN\<close> is the result \<^verbatim>\<open>size\<close>.)
\<close>

record parsed =
  dataValue :: reflectValue
  sqlType :: string
  sizeN :: int
  additionalType :: string

datatype error = Errorf string

text \<open>
  The \<^verbatim>\<open>switch dataValue.Kind()\<close> of \<^verbatim>\<open>DataTypeOf\<close>: the SQL type it assigns
  (the empty string when no case assigns one) and the field, whose tag map the integer
  cases write. \<open>dv\<close> is \<^verbatim>\<open>dataValue\<close>, \<open>size0\<close> the parser's \<^verbatim>\<open>size\<close>.
\<close>

definition switchKind ::
  "reflectValue \<Rightarrow> int \<Rightarrow> 's StructField \<Rightarrow> string \<times> 's StructField" where
  "switchKind dv size0 field =
     (if kind dv = reflectBool then (''boolean'', field)
      else if kind dv \<in> set [reflectInt, reflectInt8, reflectInt16, reflectInt32,
                reflectUint, reflectUint8, reflectUint16, reflectUint32, reflectUintptr] then
        (if TagSettings field ''AUTO_INCREMENT'' \<noteq> None \<or> IsPrimaryKey field
         then (''serial'',
               field\<lparr>TagSettings := (TagSettings field)(''AUTO_INCREMENT'' \<mapsto> ''AUTO_INCREMENT'')\<rparr>)
         else (''integer'', field))
      else if kind dv \<in> set [reflectInt64, reflectUint64] then
        (if TagSettings field ''AUTO_INCREMENT'' \<noteq> None \<or> IsPrimaryKey field
         then (''bigserial'',
               field\<lparr>TagSettings := (TagSettings field)(''AUTO_INCREMENT'' \<mapsto> ''AUTO_INCREMENT'')\<rparr>)
         else (''bigint'', field))
      else if kind dv \<in> set [reflectFloat32, reflectFloat64] then (''numeric'', field)
      else if kind dv = reflectString then
        (let size1 = (if TagSettings field ''SIZE'' = None then 0 else size0)
         in if size1 > 0 \<and> size1 < 65532
            then (''varchar('' @ formatInt size1 @ '')'', field)
            else (''text'', field))
      else if kind dv = reflectStruct then
        (if isTime dv then (''timestamp with time zone'', field) else ([], field))
      else if kind dv = reflectMap then
        (if typeName dv = ''Hstore'' then (''hstore'', field) else ([], field))
      else
        (if isByteArrayOrSlice dv then (''bytea'', field)
         else if isUUID dv then (''uuid'', field)
         else ([], field)))"

text \<open>
  The last statements of \<^verbatim>\<open>DataTypeOf\<close>: the type alone when
  \<^verbatim>\<open>strings.TrimSpace(additionalType)\<close> is empty, else
  \<^verbatim>\<open>fmt.Sprintf("%v %v", sqlType, additionalType)\<close>.
\<close>

definition withAdditionalType :: "string \<Rightarrow> string \<Rightarrow> string" where
  "withAdditionalType sqlType1 additionalType1 =
     (if TrimSpace additionalType1 = [] then sqlType1
      else sqlType1 @ '' '' @ additionalType1)"

text \<open>
  \<^verbatim>\<open>DataTypeOf\<close>. The Go function returns \<^verbatim>\<open>(string, error)\<close> and writes through
  the pointer \<^verbatim>\<open>field\<close>: the model returns the error or the string, and the field as
  the call leaves it.
\<close>

definition DataTypeOf ::
  "('s StructField \<Rightarrow> parsed) \<Rightarrow> 's StructField \<Rightarrow> (error + string) \<times> 's StructField" where
  "DataTypeOf ParseFieldStructForDialect field =
     (let p = ParseFieldStructForDialect field;
          (sqlType1, field1) =
             (if sqlType p = [] then switchKind (dataValue p) (sizeN p) field
              else (sqlType p, field))
      in if sqlType1 = [] then
           (Inl (Errorf (''invalid sql type '' @ typeName (dataValue p) @ '' ('' @
                         KindString (kind (dataValue p)) @ '') for postgres'')), field1)
         else (Inr (withAdditionalType sqlType1 (additionalType p)), field1))"

subsection \<open>Schema introspection\<close>

text \<open>
  A \<^verbatim>\<open>*sql.Row\<close>, by what \<^verbatim>\<open>Scan\<close> does with it: it either returns an error and
  leaves the destination as it was, or converts the column, stores it in the destination
  and returns \<^verbatim>\<open>nil\<close>. \<open>ScanInt\<close> is the scan into an \<^verbatim>\<open>*int\<close>, \<open>ScanString\<close> the
  scan into a \<^verbatim>\<open>*string\<close>. The handle \<^verbatim>\<open>s.DB\<close> is its method \<^verbatim>\<open>QueryRow\<close>.
\<close>

datatype Row = Row (ScanInt: "error + int") (ScanString: "error + string")

type_synonym DB = "string \<Rightarrow> string list \<Rightarrow> Row"

definition hasIndexQuery :: string where
  "hasIndexQuery = ''SELECT count(*) FROM pg_indexes WHERE tablename = $1 AND indexname = $2''"

definition hasForeignKeyQuery :: string where
  "hasForeignKeyQuery = concat
     [[CHR 0x0A], ''SELECT Count(con.conname)'',
      [CHR 0x0A], ''FROM   pg_constraint con'',
      [CHR 0x0A], ''WHERE  $1 :: regclass :: oid = con.conrelid'',
      [CHR 0x0A], ''       AND con.conname = $2'',
      [CHR 0x0A], ''       AND con.contype = '', [CHR 0x27], ''f'', [CHR 0x27],
      [CHR 0x0A, CHR 0x09]]"

definition hasTableQuery :: string where
  "hasTableQuery = concat
     [[CHR 0x0A], ''SELECT Count(*)'',
      [CHR 0x0A], ''FROM   information_schema.tables'',
      [CHR 0x0A], ''WHERE  table_name = $1'',
      [CHR 0x0A], ''       AND table_type = '', [CHR 0x27], ''BASE TABLE'', [CHR 0x27],
      [CHR 0x0A, CHR 0x09]]"

definition hasColumnQuery :: string where
  "hasColumnQuery = concat
     [[CHR 0x0A], ''SELECT Count(*)'',
      [CHR 0x0A], ''FROM   information_schema.columns'',
      [CHR 0x0A], ''WHERE  table_name = $1'',
      [CHR 0x0A], ''       AND column_name = $2'',
      [CHR 0x0A, CHR 0x09]]"

definition currentDatabaseQuery :: string where
  "currentDatabaseQuery = ''SELECT CURRENT_DATABASE()''"

text \<open>
  Each probe declares \<^verbatim>\<open>count\<close> (zero), scans the row into it and drops the error that
  \<^verbatim>\<open>Scan\<close> returns.
\<close>

definition HasIndex :: "DB \<Rightarrow> string \<Rightarrow> string \<Rightarrow> bool" where
  "HasIndex db tableName indexName =
     (let count0 = 0;
          count1 = (case ScanInt (db hasIndexQuery [tableName, indexName]) of
                      Inl err \<Rightarrow> count0 | Inr n \<Rightarrow> n)
      in count1 > 0)"

definition HasForeignKey :: "DB \<Rightarrow> string \<Rightarrow> string \<Rightarrow> bool" where
  "HasForeignKey db tableName foreignKeyName =
     (let count0 = 0;
          count1 = (case ScanInt (db hasForeignKeyQuery [tableName, foreignKeyName]) of
                      Inl err \<Rightarrow> count0 | Inr n \<Rightarrow> n)
      in count1 > 0)"

definition HasTable :: "DB \<Rightarrow> string \<Rightarrow> bool" where
  "HasTable db tableName =
     (let count0 = 0;
          count1 = (case ScanInt (db hasTableQuery [tableName]) of
                      Inl err \<Rightarrow> count0 | Inr n \<Rightarrow> n)
      in count1 > 0)"

definition HasColumn :: "DB \<Rightarrow> string \<Rightarrow> string \<Rightarrow> bool" where
  "HasColumn db tableName columnName =
     (let count0 = 0;
          count1 = (case ScanInt (db hasColumnQuery [tableName, columnName]) of
                      Inl err \<Rightarrow> count0 | Inr n \<Rightarrow> n)
      in count1 > 0)"

definition CurrentDatabase :: "DB \<Rightarrow> string" where
  "CurrentDatabase db =
     (let name0 = [] in
      case ScanString (db currentDatabaseQuery []) of Inl err \<Rightarrow> name0 | Inr n \<Rightarrow> n)"

subsection \<open>The hstore codec\<close>

text \<open>
  \<^verbatim>\<open>type Hstore map[string]*string\<close>: a key is absent, or maps to \<^verbatim>\<open>nil\<close>
  (\<open>Some None\<close>), or maps to a string (\<open>Some (Some s)\<close>). \<^verbatim>\<open>sql.NullString\<close> is a
  record, and \<open>NullMap\<close> is the field \<^verbatim>\<open>Map\<close> of the driver's \<^verbatim>\<open>hstore.Hstore\<close>.
  A \<^verbatim>\<open>driver.Value\<close> is \<open>None\<close> for \<^verbatim>\<open>nil\<close> (SQL NULL).
\<close>

type_synonym Hstore = "string \<rightharpoonup> string option"

record NullString =
  String :: string
  Valid :: bool

type_synonym NullMap = "string \<rightharpoonup> NullString"

text \<open>
  \<^verbatim>\<open>Hstore.Value\<close>. The loop over the map fills \<^verbatim>\<open>hstore.Map\<close> key by key; the
  parameter is the driver's \<^verbatim>\<open>hstore.Hstore.Value\<close>.
\<close>

definition Hstore_Value :: "(NullMap \<Rightarrow> error + 'v option) \<Rightarrow> Hstore \<Rightarrow> error + 'v option" where
  "Hstore_Value hstoreValue h =
     (if dom h = {} then Inr None
      else hstoreValue
             (\<lambda>key. case h key of
                       None \<Rightarrow> None
                     | Some v \<Rightarrow>
                         Some (case v of
                                 None \<Rightarrow> \<lparr>String = [], Valid = False\<rparr>
                               | Some str \<Rightarrow> \<lparr>String = str, Valid = True\<rparr>)))"

text \<open>
  \<^verbatim>\<open>Hstore.Scan\<close>: the error it returns (\<open>None\<close> for \<^verbatim>\<open>nil\<close>) and the map
  \<^verbatim>\<open>*h\<close> as the call leaves it. The parameter is the driver's
  \<^verbatim>\<open>hstore.Hstore.Scan\<close>, which returns an error or fills its \<^verbatim>\<open>Map\<close>.
\<close>

definition Hstore_Scan ::
  "('v option \<Rightarrow> error + NullMap) \<Rightarrow> Hstore \<Rightarrow> 'v option \<Rightarrow> error option \<times> Hstore" where
  "Hstore_Scan hstoreScan h v =
     (case hstoreScan v of
        Inl err \<Rightarrow> (Some err, h)
      | Inr m \<Rightarrow>
          if dom m = {} then (None, h)
          else (None,
                (\<lambda>k. case m k of
                        None \<Rightarrow> None
                      | Some ns \<Rightarrow> Some (if Valid ns then Some (String ns) else None))))"

subsection \<open>Example fields, databases and codecs\<close>

text \<open>
  A parser for the examples: the field's \<open>Struct\<close> is the value it returns, the tags
  \<^verbatim>\<open>TYPE\<close> and \<^verbatim>\<open>NOT NULL\<close> give the explicit type and the additional type
  (the empty string when the tag is missing, as a Go map lookup gives), and the size is 255
  unless the example fixes another one.
\<close>

definition tagOr :: "(string \<rightharpoonup> string) \<Rightarrow> string \<Rightarrow> string" where
  "tagOr tags name = (case tags name of None \<Rightarrow> [] | Some v \<Rightarrow> v)"

definition exampleParse :: "int \<Rightarrow> reflectValue StructField \<Rightarrow> parsed" where
  "exampleParse n f =
     \<lparr>dataValue = Struct f, sqlType = tagOr (TagSettings f) ''TYPE'', sizeN = n,
      additionalType = tagOr (TagSettings f) ''NOT NULL''\<rparr>"

definition valueOf :: "Kind \<Rightarrow> string \<Rightarrow> reflectValue" where
  "valueOf k name =
     \<lparr>kind = k, typeName = name, elemIsUint8 = False, typeLen = 0, isTime = False\<rparr>"

definition arrayOf :: "string \<Rightarrow> bool \<Rightarrow> nat \<Rightarrow> reflectValue" where
  "arrayOf name bytes n =
     \<lparr>kind = reflectArray, typeName = name, elemIsUint8 = bytes, typeLen = n, isTime = False\<rparr>"

definition fieldOf :: "reflectValue \<Rightarrow> bool \<Rightarrow> (string \<times> string) list \<Rightarrow> reflectValue StructField" where
  "fieldOf v pk tags = \<lparr>Struct = v, IsPrimaryKey = pk, TagSettings = map_of tags\<rparr>"

text \<open>
  A database handle whose every query fails, and one whose every query gives the count 0
  and the empty name.
\<close>

definition failingDB :: DB where
  "failingDB query args =
     Row (Inl (Errorf ''sql: database is closed'')) (Inl (Errorf ''sql: database is closed''))"

definition emptyDB :: DB where
  "emptyDB query args = Row (Inr 0) (Inr [])"

text \<open>
  A driver codec for the examples. The raw value of a column is SQL NULL (\<open>None\<close>), a
  literal, given by the pairs it holds, or bytes that are no literal. Encoding gives the
  literal of the map; decoding gives the empty map for NULL, the map of a literal, and an
  error for what is no literal.
\<close>

datatype literal = Literal NullMap | Malformed string

definition exampleValue :: "NullMap \<Rightarrow> error + literal option" where
  "exampleValue m = Inr (Some (Literal m))"

definition exampleScan :: "literal option \<Rightarrow> error + NullMap" where
  "exampleScan raw =
     (case raw of
        None \<Rightarrow> Inr Map.empty
      | Some (Literal m) \<Rightarrow> Inr m
      | Some (Malformed s) \<Rightarrow> Inl (Errorf (''hstore: cannot parse '' @ s)))"

text \<open>A value with a key that maps to a string and a key that maps to \<^verbatim>\<open>nil\<close>.\<close>

definition exampleHstore :: Hstore where
  "exampleHstore = [''a'' \<mapsto> Some ''1'', ''b'' \<mapsto> None]"

section \<open>Properties\<close>

subsection \<open>Evaluating the library functions\<close>

lemma TrimSpace_empty: "TrimSpace [] = []"
  by code_simp

lemma TrimSpace_NOT_NULL: "TrimSpace ''NOT NULL'' = ''NOT NULL''"
  by code_simp

lemma withAdditionalType_empty: "withAdditionalType t [] = t"
  by (simp add: withAdditionalType_def TrimSpace_empty)

lemma withAdditionalType_NOT_NULL: "withAdditionalType t ''NOT NULL'' = t @ '' NOT NULL''"
  by (simp add: withAdditionalType_def TrimSpace_NOT_NULL)

lemma ToLower_UUID: "ToLower ''UUID'' = ''uuid''"
  by (simp add: lowerByte_def char_of_def bit_Suc_0_iff)

lemma formatInt_65531: "formatInt 65531 = ''65531''"
  by (simp add: formatInt_def char_of_def bit_Suc_0_iff)

subsection \<open>The two paths of type inference\<close>

text \<open>Without an explicit type the result is that of the switch on the kind.\<close>

lemma DataTypeOf_no_type:
  assumes "sqlType (parse field) = []"
  shows "DataTypeOf parse field =
    (if fst (switchKind (dataValue (parse field)) (sizeN (parse field)) field) = [] then
       Inl (Errorf (''invalid sql type '' @ typeName (dataValue (parse field)) @ '' ('' @
                    KindString (kind (dataValue (parse field))) @ '') for postgres''))
     else Inr (withAdditionalType
                 (fst (switchKind (dataValue (parse field)) (sizeN (parse field)) field))
                 (additionalType (parse field))),
     snd (switchKind (dataValue (parse field)) (sizeN (parse field)) field))"
  using assms by (simp add: DataTypeOf_def Let_def split: prod.splits)

text \<open>An explicit type is used as it is, and the field is not written.\<close>

lemma DataTypeOf_explicit_type:
  assumes "sqlType (parse field) \<noteq> []"
  shows "DataTypeOf parse field =
    (Inr (withAdditionalType (sqlType (parse field)) (additionalType (parse field))), field)"
  using assms by (simp add: DataTypeOf_def Let_def)

text \<open>The switch writes nothing but the marker.\<close>

lemma switchKind_field:
  "snd (switchKind dv n field) = field \<or>
   snd (switchKind dv n field) =
     field\<lparr>TagSettings := (TagSettings field)(''AUTO_INCREMENT'' \<mapsto> ''AUTO_INCREMENT'')\<rparr>"
  by (cases "kind dv") (simp_all add: switchKind_def Let_def)

text \<open>Run on the field it returns, the switch gives the same type and the same field.\<close>

lemma switchKind_again:
  "switchKind dv n (snd (switchKind dv n field)) = switchKind dv n field"
  by (cases "kind dv") (simp_all add: switchKind_def Let_def)

text \<open>The kinds for which the switch assigns no type.\<close>

lemma switchKind_empty_iff:
  "fst (switchKind dv n field) = [] \<longleftrightarrow>
     (kind dv = reflectStruct \<and> \<not> isTime dv) \<or>
     (kind dv = reflectMap \<and> typeName dv \<noteq> ''Hstore'') \<or>
     (kind dv \<in> {reflectComplex64, reflectComplex128, reflectArray, reflectChan, reflectFunc,
                 reflectInterface, reflectPointer, reflectSlice, reflectUnsafePointer} \<and>
      \<not> isByteArrayOrSlice dv \<and> \<not> isUUID dv)"
  by (cases "kind dv") (simp_all add: switchKind_def Let_def)

subsection \<open>Integer kinds\<close>

text \<open>
  C1 (as amended). For a field whose parsed value has an integer kind and whose parsed
  explicit type is empty: when the tag map holds \<^verbatim>\<open>AUTO_INCREMENT\<close> (with any value) or
  the field is a primary key, \<^verbatim>\<open>DataTypeOf\<close> resolves \<^verbatim>\<open>serial\<close> for the kinds of
  the first integer case of the switch and \<^verbatim>\<open>bigserial\<close> for \<^verbatim>\<open>Int64\<close> and
  \<^verbatim>\<open>Uint64\<close>, and the tag map holds \<^verbatim>\<open>AUTO_INCREMENT\<close> after the call; otherwise
  it resolves \<^verbatim>\<open>integer\<close>, respectively \<^verbatim>\<open>bigint\<close>. The first integer case names
  the kinds of a width of at most 32 bits (\<^verbatim>\<open>Int8\<close>, \<^verbatim>\<open>Int16\<close>, \<^verbatim>\<open>Int32\<close>,
  \<^verbatim>\<open>Uint8\<close>, \<^verbatim>\<open>Uint16\<close>, \<^verbatim>\<open>Uint32\<close>) and the kinds of the platform's word
  (\<^verbatim>\<open>Int\<close>, \<^verbatim>\<open>Uint\<close>, \<^verbatim>\<open>Uintptr\<close>), whatever the width of the word is. The
  string returned is the resolved type when the additional type is blank, and the resolved
  type, a space and the additional type when it is not.
\<close>

theorem DataTypeOf_integer_kinds:
  assumes "parse field = p" and "sqlType p = []"
  shows
    "(kind (dataValue p) \<in> {reflectInt, reflectInt8, reflectInt16, reflectInt32,
         reflectUint, reflectUint8, reflectUint16, reflectUint32, reflectUintptr} \<longrightarrow>
       (if TagSettings field ''AUTO_INCREMENT'' \<noteq> None \<or> IsPrimaryKey field
        then fst (DataTypeOf parse field) =
               Inr (if TrimSpace (additionalType p) = [] then ''serial''
                    else ''serial '' @ additionalType p) \<and>
             TagSettings (snd (DataTypeOf parse field)) ''AUTO_INCREMENT'' \<noteq> None
        else fst (DataTypeOf parse field) =
               Inr (if TrimSpace (additionalType p) = [] then ''integer''
                    else ''integer '' @ additionalType p))) \<and>
     (kind (dataValue p) \<in> {reflectInt64, reflectUint64} \<longrightarrow>
       (if TagSettings field ''AUTO_INCREMENT'' \<noteq> None \<or> IsPrimaryKey field
        then fst (DataTypeOf parse field) =
               Inr (if TrimSpace (additionalType p) = [] then ''bigserial''
                    else ''bigserial '' @ additionalType p) \<and>
             TagSettings (snd (DataTypeOf parse field)) ''AUTO_INCREMENT'' \<noteq> None
        else fst (DataTypeOf parse field) =
               Inr (if TrimSpace (additionalType p) = [] then ''bigint''
                    else ''bigint '' @ additionalType p)))"
proof -
  from assms have no_type: "sqlType (parse field) = []"
    by simp
  have small: "fst (switchKind (dataValue p) (sizeN p) field) =
      (if TagSettings field ''AUTO_INCREMENT'' \<noteq> None \<or> IsPrimaryKey field
       then ''serial'' else ''integer'')"
    if "kind (dataValue p) \<in> {reflectInt, reflectInt8, reflectInt16, reflectInt32,
         reflectUint, reflectUint8, reflectUint16, reflectUint32, reflectUintptr}"
    using that by (auto simp: switchKind_def)
  have big: "fst (switchKind (dataValue p) (sizeN p) field) =
      (if TagSettings field ''AUTO_INCREMENT'' \<noteq> None \<or> IsPrimaryKey field
       then ''bigserial'' else ''bigint'')"
    if "kind (dataValue p) \<in> {reflectInt64, reflectUint64}"
    using that by (auto simp: switchKind_def)
  have marker: "TagSettings (snd (switchKind (dataValue p) (sizeN p) field)) ''AUTO_INCREMENT''
      \<noteq> None"
    if "kind (dataValue p) \<in> {reflectInt, reflectInt8, reflectInt16, reflectInt32,
         reflectUint, reflectUint8, reflectUint16, reflectUint32, reflectUintptr,
         reflectInt64, reflectUint64}"
      and "TagSettings field ''AUTO_INCREMENT'' \<noteq> None \<or> IsPrimaryKey field"
    using that by (auto simp: switchKind_def)
  show ?thesis
    unfolding DataTypeOf_no_type [of parse field, OF no_type] assms(1)
    using small big marker by (simp add: withAdditionalType_def)
qed

text \<open>
  A field of kind \<^verbatim>\<open>int32\<close> that is no primary key and carries the tag
  \<^verbatim>\<open>AUTO_INCREMENT\<close> with the value \<^verbatim>\<open>yes\<close>: the type is \<^verbatim>\<open>serial\<close>.
\<close>

theorem DataTypeOf_integer_kinds_witness:
  "exampleParse 255 (fieldOf (valueOf reflectInt32 ''int32'') False [(''AUTO_INCREMENT'', ''yes'')])
     = \<lparr>dataValue = valueOf reflectInt32 ''int32'', sqlType = [], sizeN = 255,
        additionalType = []\<rparr> \<and>
   fst (DataTypeOf (exampleParse 255)
          (fieldOf (valueOf reflectInt32 ''int32'') False [(''AUTO_INCREMENT'', ''yes'')]))
     = Inr ''serial'' \<and>
   TagSettings (snd (DataTypeOf (exampleParse 255)
          (fieldOf (valueOf reflectInt32 ''int32'') False [(''AUTO_INCREMENT'', ''yes'')])))
      ''AUTO_INCREMENT'' \<noteq> None"
  using DataTypeOf_integer_kinds
    [of "exampleParse 255"
        "fieldOf (valueOf reflectInt32 ''int32'') False [(''AUTO_INCREMENT'', ''yes'')]"
        "\<lparr>dataValue = valueOf reflectInt32 ''int32'', sqlType = [], sizeN = 255,
          additionalType = []\<rparr>"]
  by (simp add: exampleParse_def fieldOf_def valueOf_def tagOr_def TrimSpace_empty)

text \<open>
  The claim as written fails in two places. Where the additional type is not blank, the
  string returned is not the bare type: a primary key of kind \<^verbatim>\<open>int32\<close> with the
  additional type \<^verbatim>\<open>NOT NULL\<close> gives \<^verbatim>\<open>serial NOT NULL\<close>. And the switch goes by
  the kind, not by the width: where the platform's word has 64 bits, the kinds \<^verbatim>\<open>Int\<close>
  and \<^verbatim>\<open>Uintptr\<close> are 64 bits wide, and a primary key of kind \<^verbatim>\<open>int\<close> gives
  \<^verbatim>\<open>serial\<close>, not \<^verbatim>\<open>bigserial\<close>, a plain field of kind \<^verbatim>\<open>uintptr\<close>
  \<^verbatim>\<open>integer\<close>, not \<^verbatim>\<open>bigint\<close>.
\<close>

theorem DataTypeOf_integer_kinds_counterexample:
  "kind (dataValue (exampleParse 255
      (fieldOf (valueOf reflectInt32 ''int32'') True [(''NOT NULL'', ''NOT NULL'')]))) = reflectInt32 \<and>
   sqlType (exampleParse 255
      (fieldOf (valueOf reflectInt32 ''int32'') True [(''NOT NULL'', ''NOT NULL'')])) = [] \<and>
   IsPrimaryKey (fieldOf (valueOf reflectInt32 ''int32'') True [(''NOT NULL'', ''NOT NULL'')]) \<and>
   fst (DataTypeOf (exampleParse 255)
      (fieldOf (valueOf reflectInt32 ''int32'') True [(''NOT NULL'', ''NOT NULL'')]))
     = Inr ''serial NOT NULL'' \<and>
   fst (DataTypeOf (exampleParse 255)
      (fieldOf (valueOf reflectInt32 ''int32'') True [(''NOT NULL'', ''NOT NULL'')]))
     \<noteq> Inr ''serial'' \<and>
   kind (dataValue (exampleParse 255 (fieldOf (valueOf reflectInt ''int'') True []))) = reflectInt \<and>
   intKindBits 64 reflectInt = Some 64 \<and>
   sqlType (exampleParse 255 (fieldOf (valueOf reflectInt ''int'') True [])) = [] \<and>
   IsPrimaryKey (fieldOf (valueOf reflectInt ''int'') True []) \<and>
   fst (DataTypeOf (exampleParse 255) (fieldOf (valueOf reflectInt ''int'') True []))
     = Inr ''serial'' \<and>
   fst (DataTypeOf (exampleParse 255) (fieldOf (valueOf reflectInt ''int'') True []))
     \<noteq> Inr ''bigserial'' \<and>
   intKindBits 64 reflectUintptr = Some 64 \<and>
   fst (DataTypeOf (exampleParse 255) (fieldOf (valueOf reflectUintptr ''uintptr'') False []))
     = Inr ''integer'' \<and>
   fst (DataTypeOf (exampleParse 255) (fieldOf (valueOf reflectUintptr ''uintptr'') False []))
     \<noteq> Inr ''bigint''"
  by (simp add: DataTypeOf_def switchKind_def exampleParse_def fieldOf_def valueOf_def tagOr_def
        withAdditionalType_NOT_NULL withAdditionalType_empty)

subsection \<open>Strings\<close>

text \<open>
  C2 (as amended). For a field whose parsed value has kind \<^verbatim>\<open>String\<close> and whose parsed
  explicit type is empty: without a \<^verbatim>\<open>SIZE\<close> tag \<^verbatim>\<open>DataTypeOf\<close> resolves
  \<^verbatim>\<open>text\<close> whatever the parsed size is; with a \<^verbatim>\<open>SIZE\<close> tag and the parsed size
  \<open>s\<close> it resolves \<^verbatim>\<open>varchar(s)\<close> when \<open>0 < s < 65532\<close> and \<^verbatim>\<open>text\<close> when
  \<open>s \<le> 0\<close> or \<open>65532 \<le> s\<close>. The string returned is the resolved type when the additional
  type is blank, and the resolved type, a space and the additional type when it is not.
\<close>

theorem DataTypeOf_string_kind:
  assumes "parse field = p" and "sqlType p = []" and "kind (dataValue p) = reflectString"
  shows
    "(TagSettings field ''SIZE'' = None \<longrightarrow>
        fst (DataTypeOf parse field) =
          Inr (if TrimSpace (additionalType p) = [] then ''text''
               else ''text '' @ additionalType p)) \<and>
     (TagSettings field ''SIZE'' \<noteq> None \<and> 0 < sizeN p \<and> sizeN p < 65532 \<longrightarrow>
        fst (DataTypeOf parse field) =
          Inr (if TrimSpace (additionalType p) = [] then ''varchar('' @ formatInt (sizeN p) @ '')''
               else ''varchar('' @ formatInt (sizeN p) @ '') '' @ additionalType p)) \<and>
     (TagSettings field ''SIZE'' \<noteq> None \<and> (sizeN p \<le> 0 \<or> 65532 \<le> sizeN p) \<longrightarrow>
        fst (DataTypeOf parse field) =
          Inr (if TrimSpace (additionalType p) = [] then ''text''
               else ''text '' @ additionalType p))"
proof -
  from assms have no_type: "sqlType (parse field) = []"
    by simp
  have resolved: "fst (switchKind (dataValue p) (sizeN p) field) =
      (if TagSettings field ''SIZE'' \<noteq> None \<and> 0 < sizeN p \<and> sizeN p < 65532
       then ''varchar('' @ formatInt (sizeN p) @ '')'' else ''text'')"
    using assms(3) by (simp add: switchKind_def Let_def)
  show ?thesis
    unfolding DataTypeOf_no_type [of parse field, OF no_type] assms(1) resolved
    by (auto simp: withAdditionalType_def)
qed

text \<open>
  A string field with the tag \<^verbatim>\<open>SIZE\<close> and the largest size below the bound, 65531:
  the type is \<^verbatim>\<open>varchar(65531)\<close>.
\<close>

theorem DataTypeOf_string_kind_witness:
  "exampleParse 65531 (fieldOf (valueOf reflectString ''string'') False [(''SIZE'', ''65531'')])
     = \<lparr>dataValue = valueOf reflectString ''string'', sqlType = [], sizeN = 65531,
        additionalType = []\<rparr> \<and>
   TagSettings (fieldOf (valueOf reflectString ''string'') False [(''SIZE'', ''65531'')]) ''SIZE''
     \<noteq> None \<and>
   fst (DataTypeOf (exampleParse 65531)
          (fieldOf (valueOf reflectString ''string'') False [(''SIZE'', ''65531'')]))
     = Inr ''varchar(65531)''"
proof -
  let ?f = "fieldOf (valueOf reflectString ''string'') False [(''SIZE'', ''65531'')]"
  let ?p = "\<lparr>dataValue = valueOf reflectString ''string'', sqlType = [], sizeN = 65531,
        additionalType = []\<rparr>"
  have parsed: "exampleParse 65531 ?f = ?p"
    by (simp add: exampleParse_def fieldOf_def tagOr_def)
  have no_type: "sqlType ?p = []"
    by simp
  have string: "kind (dataValue ?p) = reflectString"
    by (simp add: valueOf_def)
  have tag: "TagSettings ?f ''SIZE'' \<noteq> None"
    by (simp add: fieldOf_def)
  from DataTypeOf_string_kind [of "exampleParse 65531" ?f ?p, OF parsed no_type string] tag
  have "fst (DataTypeOf (exampleParse 65531) ?f) = Inr ''varchar(65531)''"
    by (simp add: TrimSpace_empty formatInt_65531)
  with parsed tag show ?thesis
    by (intro conjI)
qed

text \<open>
  The claim as written fails where the additional type is not blank: a string field
  without a \<^verbatim>\<open>SIZE\<close> tag and with the additional type \<^verbatim>\<open>NOT NULL\<close> gives
  \<^verbatim>\<open>text NOT NULL\<close>.
\<close>

theorem DataTypeOf_string_kind_counterexample:
  "kind (dataValue (exampleParse 255
      (fieldOf (valueOf reflectString ''string'') False [(''NOT NULL'', ''NOT NULL'')])))
     = reflectString \<and>
   sqlType (exampleParse 255
      (fieldOf (valueOf reflectString ''string'') False [(''NOT NULL'', ''NOT NULL'')])) = [] \<and>
   TagSettings (fieldOf (valueOf reflectString ''string'') False [(''NOT NULL'', ''NOT NULL'')])
      ''SIZE'' = None \<and>
   fst (DataTypeOf (exampleParse 255)
      (fieldOf (valueOf reflectString ''string'') False [(''NOT NULL'', ''NOT NULL'')]))
     = Inr ''text NOT NULL'' \<and>
   fst (DataTypeOf (exampleParse 255)
      (fieldOf (valueOf reflectString ''string'') False [(''NOT NULL'', ''NOT NULL'')]))
     \<noteq> Inr ''text''"
  by (simp add: DataTypeOf_def switchKind_def exampleParse_def fieldOf_def valueOf_def tagOr_def
        withAdditionalType_NOT_NULL)

subsection \<open>Arrays of 16 bytes named UUID\<close>

text \<open>
  C3. The claim says that an array of 16 bytes whose type name is \<^verbatim>\<open>uuid\<close> or
  \<^verbatim>\<open>guid\<close> in lower case gets the type \<^verbatim>\<open>uuid\<close>. The default case of the switch
  tests \<^verbatim>\<open>isByteArrayOrSlice\<close> first and \<^verbatim>\<open>isUUID\<close> only when that test fails, so
  for every such array of bytes, although \<^verbatim>\<open>isUUID\<close> holds of it, \<^verbatim>\<open>DataTypeOf\<close>
  resolves \<^verbatim>\<open>bytea\<close>: with a parsed explicit type that is empty, the string returned
  is \<^verbatim>\<open>bytea\<close>, followed by a space and the additional type when that is not blank,
  and never \<^verbatim>\<open>uuid\<close>.
\<close>

theorem DataTypeOf_uuid_bytes:
  assumes "parse field = p" and "sqlType p = []"
    and "kind (dataValue p) = reflectArray" and "typeLen (dataValue p) = 16"
    and "elemIsUint8 (dataValue p)"
    and "ToLower (typeName (dataValue p)) = ''uuid'' \<or> ToLower (typeName (dataValue p)) = ''guid''"
  shows "isByteArrayOrSlice (dataValue p) \<and> isUUID (dataValue p) \<and>
         fst (DataTypeOf parse field) =
           Inr (if TrimSpace (additionalType p) = [] then ''bytea''
                else ''bytea '' @ additionalType p) \<and>
         fst (DataTypeOf parse field) \<noteq> Inr ''uuid'' \<and>
         fst (DataTypeOf parse field) \<noteq> Inr (''uuid '' @ additionalType p)"
proof -
  from assms have no_type: "sqlType (parse field) = []"
    by simp
  from assms(3,4,6) have uuid: "isUUID (dataValue p)"
    by (auto simp: isUUID_def Let_def)
  from assms(3,5) have bytes: "isByteArrayOrSlice (dataValue p)"
    by (simp add: isByteArrayOrSlice_def)
  have resolved: "fst (switchKind (dataValue p) (sizeN p) field) = ''bytea''"
    using assms(3) bytes by (simp add: switchKind_def)
  have returned: "fst (DataTypeOf parse field) =
      Inr (if TrimSpace (additionalType p) = [] then ''bytea''
           else ''bytea '' @ additionalType p)"
    unfolding DataTypeOf_no_type [of parse field, OF no_type] assms(1) resolved
    by (simp add: withAdditionalType_def)
  from returned have "fst (DataTypeOf parse field) \<noteq> Inr ''uuid''"
    and "fst (DataTypeOf parse field) \<noteq> Inr (''uuid '' @ additionalType p)"
    by simp_all
  with bytes uuid returned show ?thesis
    by (intro conjI)
qed

text \<open>
  The field of a type \<^verbatim>\<open>type UUID [16]byte\<close>, without tags: the call returns
  \<^verbatim>\<open>bytea\<close>.
\<close>

theorem DataTypeOf_uuid_bytes_witness:
  "exampleParse 255 (fieldOf (arrayOf ''UUID'' True 16) False [])
     = \<lparr>dataValue = arrayOf ''UUID'' True 16, sqlType = [], sizeN = 255,
        additionalType = []\<rparr> \<and>
   kind (arrayOf ''UUID'' True 16) = reflectArray \<and>
   typeLen (arrayOf ''UUID'' True 16) = 16 \<and>
   elemIsUint8 (arrayOf ''UUID'' True 16) \<and>
   ToLower (typeName (arrayOf ''UUID'' True 16)) = ''uuid'' \<and>
   isUUID (arrayOf ''UUID'' True 16) \<and>
   fst (DataTypeOf (exampleParse 255) (fieldOf (arrayOf ''UUID'' True 16) False []))
     = Inr ''bytea'' \<and>
   fst (DataTypeOf (exampleParse 255) (fieldOf (arrayOf ''UUID'' True 16) False []))
     \<noteq> Inr ''uuid''"
proof -
  let ?f = "fieldOf (arrayOf ''UUID'' True 16) False []"
  let ?p = "\<lparr>dataValue = arrayOf ''UUID'' True 16, sqlType = [], sizeN = 255,
        additionalType = []\<rparr>"
  have parsed: "exampleParse 255 ?f = ?p"
    by (simp add: exampleParse_def fieldOf_def tagOr_def)
  have array: "kind (arrayOf ''UUID'' True 16) = reflectArray"
    and len: "typeLen (arrayOf ''UUID'' True 16) = 16"
    and bytes: "elemIsUint8 (arrayOf ''UUID'' True 16)"
    and name: "typeName (arrayOf ''UUID'' True 16) = ''UUID''"
    by (simp_all add: arrayOf_def)
  from name have lower: "ToLower (typeName (arrayOf ''UUID'' True 16)) = ''uuid''"
    by (simp only: ToLower_UUID)
  from DataTypeOf_uuid_bytes [of "exampleParse 255" ?f ?p] parsed array len bytes lower
  have "isUUID (arrayOf ''UUID'' True 16)"
    and "fst (DataTypeOf (exampleParse 255) ?f) = Inr ''bytea''"
    and "fst (DataTypeOf (exampleParse 255) ?f) \<noteq> Inr ''uuid''"
    by (simp_all add: TrimSpace_empty)
  with parsed array len bytes lower show ?thesis
    by (intro conjI)
qed

subsection \<open>A second call\<close>

text \<open>
  C4. \<^verbatim>\<open>DataTypeOf\<close> is idempotent. The second call parses the field that the first call
  left, which may hold the new \<^verbatim>\<open>AUTO_INCREMENT\<close> marker; the parser is a function of
  another package, so the theorem takes as hypothesis that setting the marker in this field
  does not change what the parser returns for it (value, explicit type, size and additional
  type). Then, whenever the first call returns a type, the second call, on the field as the
  first call left it, returns the same type and leaves that field as it is.
\<close>

theorem DataTypeOf_idempotent:
  assumes same: "parse (field\<lparr>TagSettings :=
        (TagSettings field)(''AUTO_INCREMENT'' \<mapsto> ''AUTO_INCREMENT'')\<rparr>) = parse field"
    and ok: "fst (DataTypeOf parse field) = Inr t"
  shows "DataTypeOf parse (snd (DataTypeOf parse field)) = (Inr t, snd (DataTypeOf parse field))"
proof (cases "sqlType (parse field) = []")
  case True
  let ?sw = "switchKind (dataValue (parse field)) (sizeN (parse field))"
  note first = DataTypeOf_no_type [of parse field, OF True]
  from first have left: "snd (DataTypeOf parse field) = snd (?sw field)"
    by simp
  from switchKind_field [of "dataValue (parse field)" "sizeN (parse field)" field] same
  have again: "parse (snd (?sw field)) = parse field"
    by (elim disjE) simp_all
  with True have "sqlType (parse (snd (?sw field))) = []"
    by simp
  note second = DataTypeOf_no_type [of parse "snd (?sw field)", OF this]
  have "DataTypeOf parse (snd (?sw field)) = DataTypeOf parse field"
    unfolding second first again switchKind_again ..
  with ok left show ?thesis
    by (simp add: prod_eq_iff)
next
  case False
  note first = DataTypeOf_explicit_type [of parse field, OF False]
  with ok show ?thesis
    by simp
qed

text \<open>
  A primary key of kind \<^verbatim>\<open>int32\<close>: the first call returns \<^verbatim>\<open>serial\<close> and writes
  the marker, the example parser does not read the marker, and the second call returns
  \<^verbatim>\<open>serial\<close> again.
\<close>

theorem DataTypeOf_idempotent_witness:
  "exampleParse 255
      ((fieldOf (valueOf reflectInt32 ''int32'') True [])\<lparr>TagSettings :=
         (TagSettings (fieldOf (valueOf reflectInt32 ''int32'') True []))
           (''AUTO_INCREMENT'' \<mapsto> ''AUTO_INCREMENT'')\<rparr>)
     = exampleParse 255 (fieldOf (valueOf reflectInt32 ''int32'') True []) \<and>
   fst (DataTypeOf (exampleParse 255) (fieldOf (valueOf reflectInt32 ''int32'') True []))
     = Inr ''serial'' \<and>
   TagSettings (fieldOf (valueOf reflectInt32 ''int32'') True []) ''AUTO_INCREMENT'' = None \<and>
   TagSettings
      (snd (DataTypeOf (exampleParse 255) (fieldOf (valueOf reflectInt32 ''int32'') True [])))
      ''AUTO_INCREMENT'' = Some ''AUTO_INCREMENT'' \<and>
   fst (DataTypeOf (exampleParse 255)
      (snd (DataTypeOf (exampleParse 255) (fieldOf (valueOf reflectInt32 ''int32'') True []))))
     = Inr ''serial''"
proof -
  let ?f = "fieldOf (valueOf reflectInt32 ''int32'') True []"
  have first: "DataTypeOf (exampleParse 255) ?f =
      (Inr ''serial'',
       ?f\<lparr>TagSettings := (TagSettings ?f)(''AUTO_INCREMENT'' \<mapsto> ''AUTO_INCREMENT'')\<rparr>)"
    by (simp add: DataTypeOf_def switchKind_def exampleParse_def fieldOf_def valueOf_def
          tagOr_def withAdditionalType_empty)
  have same: "exampleParse 255
      (?f\<lparr>TagSettings := (TagSettings ?f)(''AUTO_INCREMENT'' \<mapsto> ''AUTO_INCREMENT'')\<rparr>)
      = exampleParse 255 ?f"
    by (simp add: exampleParse_def fieldOf_def tagOr_def)
  have ok: "fst (DataTypeOf (exampleParse 255) ?f) = Inr ''serial''"
    unfolding first by simp
  have before: "TagSettings ?f ''AUTO_INCREMENT'' = None"
    by (simp add: fieldOf_def)
  have after: "TagSettings (snd (DataTypeOf (exampleParse 255) ?f)) ''AUTO_INCREMENT''
      = Some ''AUTO_INCREMENT''"
    unfolding first by simp
  from DataTypeOf_idempotent [of "exampleParse 255" ?f "''serial''", OF same ok]
  have "fst (DataTypeOf (exampleParse 255) (snd (DataTypeOf (exampleParse 255) ?f)))
      = Inr ''serial''"
    by simp
  with same ok before after show ?thesis
    by (intro conjI)
qed

subsection \<open>Errors and the returned string\<close>

text \<open>
  C5. \<^verbatim>\<open>DataTypeOf\<close> returns an error exactly when the parsed explicit type is empty and
  the switch on the kind assigns no type; that is the case for a struct that is no
  \<^verbatim>\<open>time.Time\<close>, for a map whose type is not named \<^verbatim>\<open>Hstore\<close>, and for a value of
  one of the kinds of the default case that is neither a byte array or slice nor a UUID
  array. The error message holds the name of the type and of the kind. On success the
  string returned is the resolved type (the explicit type if there is one, else the type
  of the switch), followed by a space and the additional type exactly when the additional
  type, trimmed of white space, is not empty.
\<close>

theorem DataTypeOf_error_iff:
  assumes "parse field = p"
  shows
    "((\<exists>e. fst (DataTypeOf parse field) = Inl e) \<longleftrightarrow>
        sqlType p = [] \<and> fst (switchKind (dataValue p) (sizeN p) field) = []) \<and>
     (fst (switchKind (dataValue p) (sizeN p) field) = [] \<longleftrightarrow>
        (kind (dataValue p) = reflectStruct \<and> \<not> isTime (dataValue p)) \<or>
        (kind (dataValue p) = reflectMap \<and> typeName (dataValue p) \<noteq> ''Hstore'') \<or>
        (kind (dataValue p) \<in> {reflectComplex64, reflectComplex128, reflectArray, reflectChan,
            reflectFunc, reflectInterface, reflectPointer, reflectSlice, reflectUnsafePointer} \<and>
         \<not> isByteArrayOrSlice (dataValue p) \<and> \<not> isUUID (dataValue p))) \<and>
     (\<forall>e. fst (DataTypeOf parse field) = Inl e \<longrightarrow>
        e = Errorf (''invalid sql type '' @ typeName (dataValue p) @ '' ('' @
                    KindString (kind (dataValue p)) @ '') for postgres'')) \<and>
     (\<forall>s. fst (DataTypeOf parse field) = Inr s \<longrightarrow>
        (TrimSpace (additionalType p) = [] \<longrightarrow>
           s = (if sqlType p = [] then fst (switchKind (dataValue p) (sizeN p) field)
                else sqlType p)) \<and>
        (TrimSpace (additionalType p) \<noteq> [] \<longrightarrow>
           s = (if sqlType p = [] then fst (switchKind (dataValue p) (sizeN p) field)
                else sqlType p) @ '' '' @ additionalType p))"
proof -
  let ?sw = "fst (switchKind (dataValue p) (sizeN p) field)"
  let ?msg = "''invalid sql type '' @ typeName (dataValue p) @ '' ('' @
      KindString (kind (dataValue p)) @ '') for postgres''"
  have result: "fst (DataTypeOf parse field) =
      (if sqlType p = [] \<and> ?sw = [] then Inl (Errorf ?msg)
       else Inr (withAdditionalType (if sqlType p = [] then ?sw else sqlType p)
                   (additionalType p)))"
  proof (cases "sqlType p = []")
    case True
    with assms have "sqlType (parse field) = []"
      by simp
    note D = DataTypeOf_no_type [of parse field, OF this]
    show ?thesis
      unfolding D assms using True by simp
  next
    case False
    with assms have "sqlType (parse field) \<noteq> []"
      by simp
    note D = DataTypeOf_explicit_type [of parse field, OF this]
    show ?thesis
      unfolding D assms using False by simp
  qed
  have fails: "(\<exists>e. fst (DataTypeOf parse field) = Inl e) \<longleftrightarrow> sqlType p = [] \<and> ?sw = []"
    unfolding result by simp
  have kinds: "?sw = [] \<longleftrightarrow>
      (kind (dataValue p) = reflectStruct \<and> \<not> isTime (dataValue p)) \<or>
      (kind (dataValue p) = reflectMap \<and> typeName (dataValue p) \<noteq> ''Hstore'') \<or>
      (kind (dataValue p) \<in> {reflectComplex64, reflectComplex128, reflectArray, reflectChan,
          reflectFunc, reflectInterface, reflectPointer, reflectSlice, reflectUnsafePointer} \<and>
       \<not> isByteArrayOrSlice (dataValue p) \<and> \<not> isUUID (dataValue p))"
    by (rule switchKind_empty_iff)
  have message: "\<forall>e. fst (DataTypeOf parse field) = Inl e \<longrightarrow> e = Errorf ?msg"
    unfolding result by simp
  have string: "\<forall>s. fst (DataTypeOf parse field) = Inr s \<longrightarrow>
      (TrimSpace (additionalType p) = [] \<longrightarrow>
         s = (if sqlType p = [] then ?sw else sqlType p)) \<and>
      (TrimSpace (additionalType p) \<noteq> [] \<longrightarrow>
         s = (if sqlType p = [] then ?sw else sqlType p) @ '' '' @ additionalType p)"
    unfolding result by (simp add: withAdditionalType_def)
  from fails kinds message string show ?thesis
    by (intro conjI)
qed

text \<open>A map of a type named \<^verbatim>\<open>Other\<close>, without explicit type: the error names both.\<close>

theorem DataTypeOf_error_iff_witness:
  "exampleParse 255 (fieldOf (valueOf reflectMap ''Other'') False [])
     = \<lparr>dataValue = valueOf reflectMap ''Other'', sqlType = [], sizeN = 255,
        additionalType = []\<rparr> \<and>
   kind (valueOf reflectMap ''Other'') = reflectMap \<and>
   typeName (valueOf reflectMap ''Other'') \<noteq> ''Hstore'' \<and>
   fst (DataTypeOf (exampleParse 255) (fieldOf (valueOf reflectMap ''Other'') False []))
     = Inl (Errorf ''invalid sql type Other (map) for postgres'')"
proof -
  let ?f = "fieldOf (valueOf reflectMap ''Other'') False []"
  let ?v = "valueOf reflectMap ''Other''"
  let ?p = "\<lparr>dataValue = ?v, sqlType = [], sizeN = 255, additionalType = []\<rparr>"
  have parsed: "exampleParse 255 ?f = ?p"
    by (simp add: exampleParse_def fieldOf_def tagOr_def)
  have map: "kind ?v = reflectMap"
    and name: "typeName ?v \<noteq> ''Hstore''"
    and other: "typeName ?v = ''Other''"
    by (simp_all add: valueOf_def)
  note facts = DataTypeOf_error_iff [of "exampleParse 255" ?f ?p, OF parsed]
  from facts map name have "fst (switchKind (dataValue ?p) (sizeN ?p) ?f) = []"
    by simp
  with facts have "\<exists>e. fst (DataTypeOf (exampleParse 255) ?f) = Inl e"
    by simp
  then obtain e where e: "fst (DataTypeOf (exampleParse 255) ?f) = Inl e" ..
  with facts have "e = Errorf (''invalid sql type '' @ typeName (dataValue ?p) @ '' ('' @
      KindString (kind (dataValue ?p)) @ '') for postgres'')"
    by blast
  with map other have "e = Errorf ''invalid sql type Other (map) for postgres''"
    by simp
  with e have "fst (DataTypeOf (exampleParse 255) ?f)
      = Inl (Errorf ''invalid sql type Other (map) for postgres'')"
    by simp
  with parsed map name show ?thesis
    by (intro conjI)
qed

subsection \<open>What a call leaves of the field\<close>

text \<open>
  C9 (as amended). \<^verbatim>\<open>DataTypeOf\<close> leaves every part of the field other than the tag
  map as it was. The tag map is either as it was, or it is the old map with
  \<^verbatim>\<open>AUTO_INCREMENT\<close> set to \<^verbatim>\<open>AUTO_INCREMENT\<close>: its keys are a superset of the old
  keys (at most \<^verbatim>\<open>AUTO_INCREMENT\<close> is new), every entry under another key is
  unchanged, and an old value of \<^verbatim>\<open>AUTO_INCREMENT\<close> is overwritten.
\<close>

theorem DataTypeOf_frame:
  "Struct (snd (DataTypeOf parse field)) = Struct field \<and>
   IsPrimaryKey (snd (DataTypeOf parse field)) = IsPrimaryKey field \<and>
   (TagSettings (snd (DataTypeOf parse field)) = TagSettings field \<or>
    TagSettings (snd (DataTypeOf parse field)) =
      (TagSettings field)(''AUTO_INCREMENT'' \<mapsto> ''AUTO_INCREMENT'')) \<and>
   dom (TagSettings field) \<subseteq> dom (TagSettings (snd (DataTypeOf parse field))) \<and>
   dom (TagSettings (snd (DataTypeOf parse field)))
     \<subseteq> insert ''AUTO_INCREMENT'' (dom (TagSettings field)) \<and>
   TagSettings (snd (DataTypeOf parse field)) |` (- {''AUTO_INCREMENT''}) =
     TagSettings field |` (- {''AUTO_INCREMENT''})"
proof -
  have "snd (DataTypeOf parse field) = field \<or>
      snd (DataTypeOf parse field) =
        field\<lparr>TagSettings := (TagSettings field)(''AUTO_INCREMENT'' \<mapsto> ''AUTO_INCREMENT'')\<rparr>"
  proof (cases "sqlType (parse field) = []")
    case True
    show ?thesis
      unfolding DataTypeOf_no_type [of parse field, OF True]
      using switchKind_field [of "dataValue (parse field)" "sizeN (parse field)" field]
      by simp
  next
    case False
    show ?thesis
      unfolding DataTypeOf_explicit_type [of parse field, OF False] by simp
  qed
  then show ?thesis
    by (elim disjE) (auto simp: restrict_map_def)
qed

text \<open>
  A field of kind \<^verbatim>\<open>int\<close> with the tags \<^verbatim>\<open>AUTO_INCREMENT:yes\<close> and
  \<^verbatim>\<open>SIZE:10\<close>: the call keeps \<^verbatim>\<open>SIZE\<close> and sets \<^verbatim>\<open>AUTO_INCREMENT\<close>.
\<close>

theorem DataTypeOf_frame_witness:
  "Struct (snd (DataTypeOf (exampleParse 255)
      (fieldOf (valueOf reflectInt ''int'') False [(''AUTO_INCREMENT'', ''yes''), (''SIZE'', ''10'')])))
     = valueOf reflectInt ''int'' \<and>
   TagSettings (snd (DataTypeOf (exampleParse 255)
      (fieldOf (valueOf reflectInt ''int'') False [(''AUTO_INCREMENT'', ''yes''), (''SIZE'', ''10'')])))
     = [''SIZE'' \<mapsto> ''10'', ''AUTO_INCREMENT'' \<mapsto> ''AUTO_INCREMENT'']"
proof -
  let ?f = "fieldOf (valueOf reflectInt ''int'') False
      [(''AUTO_INCREMENT'', ''yes''), (''SIZE'', ''10'')]"
  have changed: "TagSettings (snd (DataTypeOf (exampleParse 255) ?f)) ''AUTO_INCREMENT''
      \<noteq> TagSettings ?f ''AUTO_INCREMENT''"
    by (simp add: DataTypeOf_def switchKind_def exampleParse_def fieldOf_def valueOf_def
          tagOr_def withAdditionalType_empty)
  from DataTypeOf_frame [of "exampleParse 255" ?f] changed
  have "Struct (snd (DataTypeOf (exampleParse 255) ?f)) = Struct ?f"
    and "TagSettings (snd (DataTypeOf (exampleParse 255) ?f)) =
      (TagSettings ?f)(''AUTO_INCREMENT'' \<mapsto> ''AUTO_INCREMENT'')"
    by auto
  then show ?thesis
    by (auto simp: fieldOf_def)
qed

text \<open>
  The claim as written fails where the tag is there with another value: the old entry of
  \<^verbatim>\<open>AUTO_INCREMENT\<close> (value \<^verbatim>\<open>yes\<close>) is not an entry of the new map, which so is no
  superset of the old one.
\<close>

theorem DataTypeOf_frame_counterexample:
  "TagSettings (fieldOf (valueOf reflectInt ''int'') False [(''AUTO_INCREMENT'', ''yes'')])
      ''AUTO_INCREMENT'' = Some ''yes'' \<and>
   TagSettings (snd (DataTypeOf (exampleParse 255)
      (fieldOf (valueOf reflectInt ''int'') False [(''AUTO_INCREMENT'', ''yes'')])))
      ''AUTO_INCREMENT'' = Some ''AUTO_INCREMENT'' \<and>
   \<not> (TagSettings (fieldOf (valueOf reflectInt ''int'') False [(''AUTO_INCREMENT'', ''yes'')])
        \<subseteq>\<^sub>m
        TagSettings (snd (DataTypeOf (exampleParse 255)
          (fieldOf (valueOf reflectInt ''int'') False [(''AUTO_INCREMENT'', ''yes'')]))))"
  by (simp add: DataTypeOf_def switchKind_def exampleParse_def fieldOf_def valueOf_def
        tagOr_def withAdditionalType_empty map_le_def)

subsection \<open>Probes that fail\<close>

text \<open>
  C8. When the scan of the row fails (the query failed, or the row could not be read), no
  probe passes the error on: \<^verbatim>\<open>HasIndex\<close>, \<^verbatim>\<open>HasForeignKey\<close>, \<^verbatim>\<open>HasTable\<close> and
  \<^verbatim>\<open>HasColumn\<close> return \<^verbatim>\<open>false\<close>, \<^verbatim>\<open>CurrentDatabase\<close> returns the empty string.
  That is the answer of the same probe on a database \<open>db0\<close> whose row holds the count 0,
  respectively the empty name: the failure cannot be told from an object that is not there.
\<close>

theorem probes_drop_errors:
  "(ScanInt (db hasIndexQuery [tableName, indexName]) = Inl e \<longrightarrow>
      \<not> HasIndex db tableName indexName) \<and>
   (ScanInt (db hasForeignKeyQuery [tableName, foreignKeyName]) = Inl e \<longrightarrow>
      \<not> HasForeignKey db tableName foreignKeyName) \<and>
   (ScanInt (db hasTableQuery [tableName]) = Inl e \<longrightarrow>
      \<not> HasTable db tableName) \<and>
   (ScanInt (db hasColumnQuery [tableName, columnName]) = Inl e \<longrightarrow>
      \<not> HasColumn db tableName columnName) \<and>
   (ScanString (db currentDatabaseQuery []) = Inl e \<longrightarrow>
      CurrentDatabase db = []) \<and>
   (ScanInt (db hasIndexQuery [tableName, indexName]) = Inl e \<and>
    ScanInt (db0 hasIndexQuery [tableName, indexName]) = Inr 0 \<longrightarrow>
      HasIndex db tableName indexName = HasIndex db0 tableName indexName) \<and>
   (ScanInt (db hasForeignKeyQuery [tableName, foreignKeyName]) = Inl e \<and>
    ScanInt (db0 hasForeignKeyQuery [tableName, foreignKeyName]) = Inr 0 \<longrightarrow>
      HasForeignKey db tableName foreignKeyName = HasForeignKey db0 tableName foreignKeyName) \<and>
   (ScanInt (db hasTableQuery [tableName]) = Inl e \<and>
    ScanInt (db0 hasTableQuery [tableName]) = Inr 0 \<longrightarrow>
      HasTable db tableName = HasTable db0 tableName) \<and>
   (ScanInt (db hasColumnQuery [tableName, columnName]) = Inl e \<and>
    ScanInt (db0 hasColumnQuery [tableName, columnName]) = Inr 0 \<longrightarrow>
      HasColumn db tableName columnName = HasColumn db0 tableName columnName) \<and>
   (ScanString (db currentDatabaseQuery []) = Inl e \<and>
    ScanString (db0 currentDatabaseQuery []) = Inr [] \<longrightarrow>
      CurrentDatabase db = CurrentDatabase db0)"
  by (simp add: HasIndex_def HasForeignKey_def HasTable_def HasColumn_def CurrentDatabase_def)

text \<open>A handle whose queries all fail, next to one whose catalog is empty.\<close>

theorem probes_drop_errors_witness:
  "ScanInt (failingDB hasTableQuery [''users'']) = Inl (Errorf ''sql: database is closed'') \<and>
   ScanInt (emptyDB hasTableQuery [''users'']) = Inr 0 \<and>
   \<not> HasIndex failingDB ''users'' ''idx_users_name'' \<and>
   \<not> HasForeignKey failingDB ''users'' ''users_group_id_fkey'' \<and>
   \<not> HasTable failingDB ''users'' \<and>
   \<not> HasColumn failingDB ''users'' ''name'' \<and>
   CurrentDatabase failingDB = [] \<and>
   HasTable failingDB ''users'' = HasTable emptyDB ''users'' \<and>
   CurrentDatabase failingDB = CurrentDatabase emptyDB"
  using probes_drop_errors
    [where db = failingDB and ?db0.0 = emptyDB and tableName = "''users''"
       and indexName = "''idx_users_name''" and foreignKeyName = "''users_group_id_fkey''"
       and columnName = "''name''" and e = "Errorf ''sql: database is closed''"]
  by (simp add: failingDB_def emptyDB_def HasTable_def CurrentDatabase_def)

subsection \<open>The empty hstore\<close>

text \<open>
  C7. \<^verbatim>\<open>Value\<close> of an \<^verbatim>\<open>Hstore\<close> without entries is \<^verbatim>\<open>nil\<close> (SQL NULL) and no
  error, whatever the driver would make of the empty map. \<^verbatim>\<open>Scan\<close> of a raw value that
  the driver parses to a map without entries (as it does SQL NULL) returns no error and
  leaves the destination \<open>dest\<close> as it was.
\<close>

theorem Hstore_empty:
  "(dom h = {} \<longrightarrow> Hstore_Value hstoreValue h = Inr None) \<and>
   (hstoreScan raw = Inr m \<and> dom m = {} \<longrightarrow>
      Hstore_Scan hstoreScan dest raw = (None, dest))"
  by (simp add: Hstore_Value_def Hstore_Scan_def)

text \<open>
  With the example codec: the empty map is encoded as NULL, not as the empty literal the
  driver would give, and neither NULL nor the empty literal changes a destination that
  holds entries.
\<close>

theorem Hstore_empty_witness:
  "dom (Map.empty :: Hstore) = {} \<and>
   Hstore_Value exampleValue Map.empty = Inr None \<and>
   exampleValue Map.empty = Inr (Some (Literal Map.empty)) \<and>
   exampleScan None = Inr Map.empty \<and>
   Hstore_Scan exampleScan exampleHstore None = (None, exampleHstore) \<and>
   exampleScan (Some (Literal Map.empty)) = Inr Map.empty \<and>
   Hstore_Scan exampleScan exampleHstore (Some (Literal Map.empty)) = (None, exampleHstore) \<and>
   exampleHstore ''a'' = Some (Some ''1'')"
proof -
  have literal: "exampleValue Map.empty = Inr (Some (Literal Map.empty))"
    by (simp add: exampleValue_def)
  have null: "exampleScan None = Inr Map.empty"
    and lit: "exampleScan (Some (Literal Map.empty)) = Inr Map.empty"
    by (simp_all add: exampleScan_def)
  have entry: "exampleHstore ''a'' = Some (Some ''1'')"
    by (simp add: exampleHstore_def)
  have empty: "dom (Map.empty :: Hstore) = {}"
    by simp
  from Hstore_empty [of Map.empty exampleValue] empty
  have enc: "Hstore_Value exampleValue Map.empty = Inr None"
    by blast
  from Hstore_empty [of h exampleValue exampleScan None Map.empty exampleHstore for h :: Hstore] null
  have dec_null: "Hstore_Scan exampleScan exampleHstore None = (None, exampleHstore)"
    by simp
  from Hstore_empty [of h exampleValue exampleScan "Some (Literal Map.empty)" Map.empty
      exampleHstore for h :: Hstore] lit
  have dec_lit: "Hstore_Scan exampleScan exampleHstore (Some (Literal Map.empty))
      = (None, exampleHstore)"
    by simp
  from empty enc literal null dec_null lit dec_lit entry show ?thesis
    by (intro conjI)
qed

subsection \<open>A raw value that does not parse\<close>

text \<open>
  C10. When the driver's parse of the raw value fails, \<^verbatim>\<open>Scan\<close> returns that error and
  leaves the destination \<open>dest\<close> as it was. The destination is another map after the call
  only when the parse has succeeded with a map that has entries, and then \<^verbatim>\<open>Scan\<close>
  returns no error.
\<close>

theorem Hstore_Scan_error:
  "(hstoreScan raw = Inl e \<longrightarrow> Hstore_Scan hstoreScan dest raw = (Some e, dest)) \<and>
   (snd (Hstore_Scan hstoreScan dest raw) \<noteq> dest \<longrightarrow>
      (\<exists>m. hstoreScan raw = Inr m \<and> dom m \<noteq> {}) \<and>
      fst (Hstore_Scan hstoreScan dest raw) = None)"
  by (cases "hstoreScan raw") (simp_all add: Hstore_Scan_def)

text \<open>Bytes that are no literal: the error is returned, the destination keeps its entries.\<close>

theorem Hstore_Scan_error_witness:
  "exampleScan (Some (Malformed ''a=>''))
     = Inl (Errorf ''hstore: cannot parse a=>'') \<and>
   Hstore_Scan exampleScan exampleHstore (Some (Malformed ''a=>''))
     = (Some (Errorf ''hstore: cannot parse a=>''), exampleHstore) \<and>
   exampleHstore ''b'' = Some None"
proof -
  have fails: "exampleScan (Some (Malformed ''a=>'')) = Inl (Errorf ''hstore: cannot parse a=>'')"
    by (simp add: exampleScan_def)
  have entry: "exampleHstore ''b'' = Some None"
    by (simp add: exampleHstore_def)
  from Hstore_Scan_error [of exampleScan "Some (Malformed ''a=>'')"
      "Errorf ''hstore: cannot parse a=>''" exampleHstore] fails
  have "Hstore_Scan exampleScan exampleHstore (Some (Malformed ''a=>''))
      = (Some (Errorf ''hstore: cannot parse a=>''), exampleHstore)"
    by blast
  with fails entry show ?thesis
    by (intro conjI)
qed

subsection \<open>Encoding, then decoding\<close>



end
